theory Spec2Isabelle
  imports Complex_Main
begin

section \<open>Cell values\<close>

text \<open>
  The function library of \<^verbatim>\<open>formulas/functions.py\<close> works on spreadsheet cell values:
  numbers, booleans, text, error values and the empty marker, alone or in (nested)
  arrays.
\<close>

text \<open>
  Modelled from the spec: the error values are the entries of the table
  \<^verbatim>\<open>Error.errors\<close>, instances of \<^verbatim>\<open>XlError\<close>; the table and the class live in
  \<^verbatim>\<open>tokens/operand.py\<close>, which is not among the sources. The specification gives the
  closed set of codes: division by zero, invalid value, invalid number, not available,
  name, null, reference; one value per code, compared by identity.
\<close>

datatype xlerror = ErrDiv0 | ErrValue | ErrNum | ErrNA | ErrName | ErrNull | ErrRef

text \<open>
  A Python float is a finite number, one of the two infinities, or NaN. Finite floats
  are embedded in the reals; the two zeros are identified. Where an operation on finite
  floats rounds or overflows, the model computes the exact real result, so no theorem
  below says that a result is finite unless the operation is exact.
\<close>

datatype pyfloat = Fin real | PInf | NInf | NaN

datatype cell = Num pyfloat | Bool bool | Text string | Err xlerror | Empty

text \<open>A value is a scalar cell or an array (a sequence of values, nested for each axis).\<close>

datatype val = Leaf cell | Arr "val list"

text \<open>The exceptions the functions raise or meet.\<close>

datatype exn =
  FoundError xlerror | TypeError | ValueError | ZeroDivisionError | AssertionError
  | AttributeError | OverflowError | IndexError

section \<open>Float primitives\<close>

definition isnan :: "pyfloat \<Rightarrow> bool" where
  "isnan x = (x = NaN)"

definition isinf :: "pyfloat \<Rightarrow> bool" where
  "isinf x = (x = PInf \<or> x = NInf)"

text \<open>Python's \<^verbatim>\<open>==\<close> and \<^verbatim>\<open><\<close> on floats: every comparison with NaN is false.\<close>

fun feq :: "pyfloat \<Rightarrow> pyfloat \<Rightarrow> bool" where
  "feq NaN y = False"
| "feq x NaN = False"
| "feq x y = (x = y)"

fun flt :: "pyfloat \<Rightarrow> pyfloat \<Rightarrow> bool" where
  "flt (Fin a) (Fin b) = (a < b)"
| "flt (Fin a) PInf = True"
| "flt NInf (Fin b) = True"
| "flt NInf PInf = True"
| "flt x y = False"

fun np_abs :: "pyfloat \<Rightarrow> pyfloat" where
  "np_abs (Fin r) = Fin \<bar>r\<bar>"
| "np_abs PInf = PInf"
| "np_abs NInf = PInf"
| "np_abs NaN = NaN"

text \<open>Addition and multiplication with the special values of IEEE 754.\<close>

fun fadd :: "pyfloat \<Rightarrow> pyfloat \<Rightarrow> pyfloat" where
  "fadd NaN y = NaN"
| "fadd x NaN = NaN"
| "fadd (Fin a) (Fin b) = Fin (a + b)"
| "fadd PInf NInf = NaN"
| "fadd NInf PInf = NaN"
| "fadd PInf y = PInf"
| "fadd NInf y = NInf"
| "fadd (Fin a) y = y"

definition fnonneg :: "pyfloat \<Rightarrow> bool" where
  "fnonneg x = (case x of Fin r \<Rightarrow> 0 \<le> r | PInf \<Rightarrow> True | NInf \<Rightarrow> False | NaN \<Rightarrow> False)"

fun fmul :: "pyfloat \<Rightarrow> pyfloat \<Rightarrow> pyfloat" where
  "fmul NaN y = NaN"
| "fmul x NaN = NaN"
| "fmul (Fin a) (Fin b) = Fin (a * b)"
| "fmul x y =
     (if x = Fin 0 \<or> y = Fin 0 then NaN
      else if fnonneg x = fnonneg y then PInf else NInf)"

section \<open>Coercion to float\<close>

text \<open>
  \<^verbatim>\<open>float(v)\<close> on a cell. Parsing a string is Python's own; it is a parameter of the
  model (\<open>sf s = None\<close> when \<^verbatim>\<open>float(s)\<close> raises \<^verbatim>\<open>ValueError\<close>). A boolean
  coerces to 1.0 or 0.0.
\<close>

type_synonym str2float = "string \<Rightarrow> pyfloat option"

text \<open>
  Modelled from the spec: the last two equations, for the class \<^verbatim>\<open>XlError\<close> and the
  empty marker, which are not among the sources. The specification says that an error
  value is never converted to a number, so \<^verbatim>\<open>float\<close> of an error value raises; so does
  \<^verbatim>\<open>float\<close> of the empty marker, which is distinct from zero and from every number.
  \<^verbatim>\<open>is_number\<close> and \<^verbatim>\<open>safe_eval\<close> catch \<^verbatim>\<open>ValueError\<close> and \<^verbatim>\<open>TypeError\<close> alike.
\<close>

fun py_float :: "str2float \<Rightarrow> cell \<Rightarrow> exn + pyfloat" where
  "py_float sf (Num f) = Inr f"
| "py_float sf (Bool b) = Inr (Fin (if b then 1 else 0))"
| "py_float sf (Text s) = (case sf s of None \<Rightarrow> Inl ValueError | Some f \<Rightarrow> Inr f)"
| "py_float sf (Err e) = Inl ValueError"
| "py_float sf Empty = Inl TypeError"

text \<open>
  Modelled from the spec: the class \<^verbatim>\<open>Error\<close> of \<^verbatim>\<open>tokens/operand.py\<close>, not among the
  sources. It holds the table of error values (\<^verbatim>\<open>Error.errors\<close>); the values themselves
  are tested with \<^verbatim>\<open>isinstance(v, XlError)\<close> everywhere else in the file, and the
  specification has \<^verbatim>\<open>is_number\<close> false on them. No cell value is an instance of
  \<^verbatim>\<open>Error\<close>.
\<close>

definition isinstance_Error :: "cell \<Rightarrow> bool" where
  "isinstance_Error number = False"

text \<open>
  \<^verbatim>\<open>
  def is_number(number):
      if not isinstance(number, Error):
          try:
              float(number)
          except (ValueError, TypeError):
              return False
      return True
  \<close>
  \<^verbatim>\<open>float\<close> on a cell raises nothing but \<^verbatim>\<open>ValueError\<close> and \<^verbatim>\<open>TypeError\<close>
  (\<open>py_float_exn\<close> below), so every exception is caught.
\<close>

definition is_number :: "str2float \<Rightarrow> cell \<Rightarrow> bool" where
  "is_number sf number =
     (if \<not> isinstance_Error number then
        (case py_float sf number of Inl e \<Rightarrow> False | Inr f \<Rightarrow> True)
      else True)"

section \<open>Flattening and the fail-fast check\<close>

text \<open>
  \<^verbatim>\<open>
  def flatten(l, check=is_number):
      if isinstance(l, collections.Iterable) and not isinstance(l, str):
          for el in l:
              yield from flatten(el, check)
      elif not check or check(l):
          yield l
  \<close>
  Arrays and argument tuples are the iterables; a text is a leaf. The generator is
  consumed in order, so it is the list of the leaves it yields.
\<close>

fun flatten :: "(cell \<Rightarrow> bool) option \<Rightarrow> val \<Rightarrow> cell list" where
  "flatten check (Arr l) = concat (map (flatten check) l)"
| "flatten check (Leaf c) =
     (case check of None \<Rightarrow> [c] | Some p \<Rightarrow> if p c then [c] else [])"

definition isinstance_XlError :: "cell \<Rightarrow> bool" where
  "isinstance_XlError v = (case v of Err e \<Rightarrow> True | _ \<Rightarrow> False)"

text \<open>
  \<^verbatim>\<open>
  def raise_errors(*args):
      for v in flatten(args, None):
          if isinstance(v, XlError):
              raise FoundError(err=v)
  \<close>
\<close>

fun raise_errors_loop :: "cell list \<Rightarrow> exn + unit" where
  "raise_errors_loop [] = Inr ()"
| "raise_errors_loop (v # vs) =
     (case v of Err e \<Rightarrow> Inl (FoundError e) | _ \<Rightarrow> raise_errors_loop vs)"

definition raise_errors :: "val list \<Rightarrow> exn + unit" where
  "raise_errors args = raise_errors_loop (flatten None (Arr args))"

section \<open>The error predicates\<close>

text \<open>
  \<^verbatim>\<open>
  def iserr(val):
      try:
          b = np.asarray([isinstance(v, XlError) and v is not Error.errors['#N/A']
                          for v in val.ravel().tolist()], bool)
          b.resize(val.shape)
          return b
      except AttributeError:  # val is not an array.
          return iserr(np.asarray([[val]], object))[0][0]
  \<close>
  The list comprehension over the ravelled array, resized to the array's shape, is the
  map over its positions. A scalar has no \<^verbatim>\<open>ravel\<close>: it is wrapped in a 1 x 1 array and
  the result is read back at \<^verbatim>\<open>[0][0]\<close>.
\<close>

fun map_leaves :: "(cell \<Rightarrow> cell) \<Rightarrow> val \<Rightarrow> val" where
  "map_leaves g (Leaf c) = Leaf (g c)"
| "map_leaves g (Arr l) = Arr (map (map_leaves g) l)"

fun index0 :: "val \<Rightarrow> exn + val" where
  "index0 (Arr (x # xs)) = Inr x"
| "index0 (Arr []) = Inl IndexError"
| "index0 (Leaf c) = Inl TypeError"

definition index00 :: "val \<Rightarrow> exn + val" where
  "index00 v = (case index0 v of Inl e \<Rightarrow> Inl e | Inr row \<Rightarrow> index0 row)"

definition iserr_array :: "val \<Rightarrow> val" where
  "iserr_array v = map_leaves (\<lambda>c. Bool (isinstance_XlError c \<and> c \<noteq> Err ErrNA)) v"

definition iserr :: "val \<Rightarrow> exn + val" where
  "iserr v =
     (case v of
        Arr l \<Rightarrow> Inr (iserr_array v)
      | Leaf c \<Rightarrow> index00 (iserr_array (Arr [Arr [v]])))"

definition iserror_array :: "val \<Rightarrow> val" where
  "iserror_array v = map_leaves (\<lambda>c. Bool (isinstance_XlError c)) v"

definition iserror :: "val \<Rightarrow> exn + val" where
  "iserror v =
     (case v of
        Arr l \<Rightarrow> Inr (iserror_array v)
      | Leaf c \<Rightarrow> index00 (iserror_array (Arr [Arr [v]])))"

section \<open>The generic wrapper\<close>

text \<open>
  Modelled from the spec: \<^verbatim>\<open>replace_empty\<close> and \<^verbatim>\<open>wrap_func\<close> are imported from the
  package's \<^verbatim>\<open>__init__\<close>, which is not among the sources. By the specification the
  generic wrapper replaces each empty value by the empty substitute (numeric zero)
  before it delegates, returns whatever the wrapped function returns, and is the place
  where the fail-fast signal \<^verbatim>\<open>FoundError\<close> is caught and turned into the error value it
  carries. The specification says nothing of other exceptions; they are left to
  propagate.
\<close>

fun replace_empty :: "val \<Rightarrow> val" where
  "replace_empty (Leaf c) = Leaf (if c = Empty then Num (Fin 0) else c)"
| "replace_empty (Arr l) = Arr (map replace_empty l)"

type_synonym xlfun = "val list \<Rightarrow> exn + val"

definition wrap_func :: "xlfun \<Rightarrow> xlfun" where
  "wrap_func func args =
     (case func (map replace_empty args) of
        Inl (FoundError err) \<Rightarrow> Inr (Leaf (Err err))
      | r \<Rightarrow> r)"

section \<open>The elementwise numeric wrapper\<close>

text \<open>
  \<^verbatim>\<open>
  def wrap_ufunc(func):
      def safe_eval(*vals):
          try:
              r = func(*map(float, vals))
              if not isinstance(r, XlError) and (np.isnan(r) or np.isinf(r)):
                  r = Error.errors['#NUM!']
          except (ValueError, TypeError):
              r = Error.errors['#VALUE!']
          return r

      def wrapper(*args, **kwargs):
          args = map(replace_empty, args)
          return np.vectorize(safe_eval, otypes=[object])(*args).view(Array)

      return wrap_func(functools.update_wrapper(wrapper, func))
  \<close>
  The argument unpacking runs \<^verbatim>\<open>float\<close> over the leaves in order before \<^verbatim>\<open>func\<close> is
  called (\<open>float_all\<close>). \<^verbatim>\<open>np.isnan\<close> accepts a float or a boolean and raises
  \<^verbatim>\<open>TypeError\<close> on a text (\<open>nan_check\<close>). The handler catches \<^verbatim>\<open>ValueError\<close> and
  \<^verbatim>\<open>TypeError\<close> from any of the three steps (\<open>except_value\<close>).
\<close>

fun float_all :: "str2float \<Rightarrow> cell list \<Rightarrow> exn + pyfloat list" where
  "float_all sf [] = Inr []"
| "float_all sf (v # vs) =
     (case py_float sf v of
        Inl e \<Rightarrow> Inl e
      | Inr f \<Rightarrow> (case float_all sf vs of Inl e \<Rightarrow> Inl e | Inr fs \<Rightarrow> Inr (f # fs)))"

fun nan_check :: "cell \<Rightarrow> exn + cell" where
  "nan_check (Err e) = Inr (Err e)"
| "nan_check (Num f) = Inr (if isnan f \<or> isinf f then Err ErrNum else Num f)"
| "nan_check (Bool b) = Inr (Bool b)"
| "nan_check (Text s) = Inl TypeError"
| "nan_check Empty = Inl TypeError"

definition except_value :: "exn + cell \<Rightarrow> exn + cell" where
  "except_value r =
     (case r of
        Inl ValueError \<Rightarrow> Inr (Err ErrValue)
      | Inl TypeError \<Rightarrow> Inr (Err ErrValue)
      | _ \<Rightarrow> r)"

definition safe_eval ::
  "str2float \<Rightarrow> (pyfloat list \<Rightarrow> exn + cell) \<Rightarrow> cell list \<Rightarrow> exn + cell" where
  "safe_eval sf func vals =
     except_value
       (case float_all sf vals of
          Inl e \<Rightarrow> Inl e
        | Inr fs \<Rightarrow> (case func fs of Inl e \<Rightarrow> Inl e | Inr r \<Rightarrow> nan_check r))"

text \<open>
  \<^verbatim>\<open>np.vectorize(safe_eval, otypes=[object])(*args)\<close> broadcasts its arguments and calls
  \<^verbatim>\<open>safe_eval\<close> once per output position with the leaves the arguments hold there.
  Shapes are aligned from the last axis: an argument of lower rank is used whole at
  every index of a leading axis, an axis of length 1 is repeated, and two lengths
  other than 1 that differ cannot be broadcast (\<^verbatim>\<open>ValueError\<close>, raised outside
  \<^verbatim>\<open>safe_eval\<close>). With scalar arguments there is one position. Arrays are rectangular,
  so the rank of an array is read off its first entries.
\<close>

fun rank :: "val \<Rightarrow> nat" where
  "rank (Leaf c) = 0"
| "rank (Arr []) = 1"
| "rank (Arr (x # xs)) = Suc (rank x)"

fun dim0 :: "val \<Rightarrow> nat" where
  "dim0 (Arr l) = length l"
| "dim0 (Leaf c) = 1"

fun cells_of :: "val list \<Rightarrow> cell list option" where
  "cells_of [] = Some []"
| "cells_of (Leaf c # vs) = (case cells_of vs of None \<Rightarrow> None | Some cs \<Rightarrow> Some (c # cs))"
| "cells_of (Arr l # vs) = None"

text \<open>Running a sequence of computations in order, up to the first that raises.\<close>

fun collect :: "(exn + 'a) list \<Rightarrow> exn + 'a list" where
  "collect [] = Inr []"
| "collect (r # rs) =
     (case r of
        Inl e \<Rightarrow> Inl e
      | Inr x \<Rightarrow> (case collect rs of Inl e \<Rightarrow> Inl e | Inr xs \<Rightarrow> Inr (x # xs)))"

definition pick :: "nat \<Rightarrow> nat \<Rightarrow> val \<Rightarrow> val" where
  "pick k i a =
     (case a of
        Arr l \<Rightarrow> if rank a = k then (if length l = 1 then l ! 0 else l ! i) else a
      | Leaf c \<Rightarrow> a)"

definition bdim :: "nat \<Rightarrow> val list \<Rightarrow> exn + nat" where
  "bdim k args =
     (case remdups (filter (\<lambda>n. n \<noteq> 1) (map dim0 (filter (\<lambda>a. rank a = k) args))) of
        [] \<Rightarrow> Inr 1
      | [n] \<Rightarrow> Inr n
      | _ \<Rightarrow> Inl ValueError)"

fun broadcast :: "nat \<Rightarrow> (cell list \<Rightarrow> exn + cell) \<Rightarrow> val list \<Rightarrow> exn + val" where
  "broadcast 0 f args =
     (case cells_of args of
        None \<Rightarrow> Inl ValueError
      | Some cs \<Rightarrow> (case f cs of Inl e \<Rightarrow> Inl e | Inr r \<Rightarrow> Inr (Leaf r)))"
| "broadcast (Suc k) f args =
     (case bdim (Suc k) args of
        Inl e \<Rightarrow> Inl e
      | Inr n \<Rightarrow>
          (case collect (map (\<lambda>i. broadcast k f (map (pick (Suc k) i) args)) [0..<n]) of
             Inl e \<Rightarrow> Inl e
           | Inr rs \<Rightarrow> Inr (Arr rs)))"

definition vectorize :: "(cell list \<Rightarrow> exn + cell) \<Rightarrow> val list \<Rightarrow> exn + val" where
  "vectorize f args =
     (if args = [] then Inl ValueError else broadcast (Max (set (map rank args))) f args)"

definition wrapper :: "str2float \<Rightarrow> (pyfloat list \<Rightarrow> exn + cell) \<Rightarrow> xlfun" where
  "wrapper sf func args = vectorize (safe_eval sf func) (map replace_empty args)"

definition wrap_ufunc :: "str2float \<Rightarrow> (pyfloat list \<Rightarrow> exn + cell) \<Rightarrow> xlfun" where
  "wrap_ufunc sf func = wrap_func (wrapper sf func)"

text \<open>
  A scalar operation of one or of two arguments, called with the unpacked floats: a
  call with another number of arguments raises \<^verbatim>\<open>TypeError\<close>.
\<close>

definition ufunc1 :: "(pyfloat \<Rightarrow> cell) \<Rightarrow> pyfloat list \<Rightarrow> exn + cell" where
  "ufunc1 f fs = (case fs of [x] \<Rightarrow> Inr (f x) | _ \<Rightarrow> Inl TypeError)"

definition ufunc2 :: "(pyfloat \<Rightarrow> pyfloat \<Rightarrow> cell) \<Rightarrow> pyfloat list \<Rightarrow> exn + cell" where
  "ufunc2 f fs = (case fs of [x, y] \<Rightarrow> Inr (f x y) | _ \<Rightarrow> Inl TypeError)"

section \<open>The registered numeric functions\<close>

text \<open>\<^verbatim>\<open>FUNCTIONS['ABS'] = wrap_ufunc(np.abs)\<close>\<close>

definition xl_ABS :: "str2float \<Rightarrow> xlfun" where
  "xl_ABS sf = wrap_ufunc sf (ufunc1 (\<lambda>x. Num (np_abs x)))"

text \<open>
  \<^verbatim>\<open>FUNCTIONS['LOG'] = wrap_ufunc(np.log10)\<close>, \<^verbatim>\<open>FUNCTIONS['LN'] = wrap_ufunc(np.log)\<close>.
  numpy's logarithms return minus infinity at zero and NaN at a negative number (with a
  warning, not an exception).
\<close>

fun np_log10 :: "pyfloat \<Rightarrow> pyfloat" where
  "np_log10 (Fin r) = (if 0 < r then Fin (log 10 r) else if r = 0 then NInf else NaN)"
| "np_log10 PInf = PInf"
| "np_log10 NInf = NaN"
| "np_log10 NaN = NaN"

fun np_log :: "pyfloat \<Rightarrow> pyfloat" where
  "np_log (Fin r) = (if 0 < r then Fin (ln r) else if r = 0 then NInf else NaN)"
| "np_log PInf = PInf"
| "np_log NInf = NaN"
| "np_log NaN = NaN"

definition xl_LOG :: "str2float \<Rightarrow> xlfun" where
  "xl_LOG sf = wrap_ufunc sf (ufunc1 (\<lambda>x. Num (np_log10 x)))"

definition xl_LN :: "str2float \<Rightarrow> xlfun" where
  "xl_LN sf = wrap_ufunc sf (ufunc1 (\<lambda>x. Num (np_log x)))"

text \<open>
  \<^verbatim>\<open>
  def xarctan2(x, y):
      return x == y == 0 and Error.errors['#DIV/0!'] or np.arctan2(y, x)

  FUNCTIONS['ATAN2'] = wrap_ufunc(xarctan2)
  \<close>
  \<^verbatim>\<open>x == y == 0\<close> is \<^verbatim>\<open>x == y and y == 0\<close>. When it is false, \<^verbatim>\<open>False or e\<close> is \<^verbatim>\<open>e\<close>
  whatever \<^verbatim>\<open>e\<close> is; when it is true the result is the error value, which is truthy
  (modelled from the spec: an error value is a token with a non-empty display string).
  \<^verbatim>\<open>np.arctan2\<close> is a parameter.
\<close>

definition xarctan2 :: "(pyfloat \<Rightarrow> pyfloat \<Rightarrow> pyfloat) \<Rightarrow> pyfloat \<Rightarrow> pyfloat \<Rightarrow> cell" where
  "xarctan2 np_arctan2 x y =
     (if feq x y \<and> feq y (Fin 0) then Err ErrDiv0 else Num (np_arctan2 y x))"

definition xl_ATAN2 :: "str2float \<Rightarrow> (pyfloat \<Rightarrow> pyfloat \<Rightarrow> pyfloat) \<Rightarrow> xlfun" where
  "xl_ATAN2 sf np_arctan2 = wrap_ufunc sf (ufunc2 (xarctan2 np_arctan2))"

text \<open>
  \<^verbatim>\<open>
  def xpower(number, power):
      if number == 0:
          if power == 0:
              return Error.errors['#NUM!']
          if power < 0:
              return Error.errors['#DIV/0!']
      return np.power(number, power)

  FUNCTIONS['POWER'] = wrap_ufunc(xpower)
  \<close>
  \<^verbatim>\<open>np.power\<close> is a parameter.
\<close>

definition xpower :: "(pyfloat \<Rightarrow> pyfloat \<Rightarrow> pyfloat) \<Rightarrow> pyfloat \<Rightarrow> pyfloat \<Rightarrow> cell" where
  "xpower np_power number pwr =
     (if feq number (Fin 0) then
        (if feq pwr (Fin 0) then Err ErrNum
         else if flt pwr (Fin 0) then Err ErrDiv0
         else Num (np_power number pwr))
      else Num (np_power number pwr))"

definition xl_POWER :: "str2float \<Rightarrow> (pyfloat \<Rightarrow> pyfloat \<Rightarrow> pyfloat) \<Rightarrow> xlfun" where
  "xl_POWER sf np_power = wrap_ufunc sf (ufunc2 (xpower np_power))"

section \<open>The aggregates\<close>

text \<open>
  Python's \<^verbatim>\<open>sum\<close> starts from the integer 0 and adds the items in order. A number or
  a boolean adds; a text does not (\<^verbatim>\<open>0 + '3'\<close> raises \<^verbatim>\<open>TypeError\<close>).
\<close>

fun py_add :: "pyfloat \<Rightarrow> cell \<Rightarrow> exn + pyfloat" where
  "py_add acc (Num f) = Inr (fadd acc f)"
| "py_add acc (Bool b) = Inr (fadd acc (Fin (if b then 1 else 0)))"
| "py_add acc (Text s) = Inl TypeError"
| "py_add acc (Err e) = Inl TypeError"
| "py_add acc Empty = Inl TypeError"

fun py_sum_from :: "pyfloat \<Rightarrow> cell list \<Rightarrow> exn + pyfloat" where
  "py_sum_from acc [] = Inr acc"
| "py_sum_from acc (x # xs) =
     (case py_add acc x of Inl e \<Rightarrow> Inl e | Inr acc' \<Rightarrow> py_sum_from acc' xs)"

definition py_sum :: "cell list \<Rightarrow> exn + pyfloat" where
  "py_sum l = py_sum_from (Fin 0) l"

text \<open>
  \<^verbatim>\<open>
  def xsum(*args):
      raise_errors(args)
      return sum(list(flatten(args)))

  FUNCTIONS['SUM'] = wrap_func(xsum)
  \<close>
  \<^verbatim>\<open>raise_errors\<close> is called with the argument tuple as its one argument.
\<close>

definition xsum :: "str2float \<Rightarrow> xlfun" where
  "xsum sf args =
     (case raise_errors [Arr args] of
        Inl e \<Rightarrow> Inl e
      | Inr u \<Rightarrow>
          (case py_sum (flatten (Some (is_number sf)) (Arr args)) of
             Inl e \<Rightarrow> Inl e
           | Inr s \<Rightarrow> Inr (Leaf (Num s))))"

definition xl_SUM :: "str2float \<Rightarrow> xlfun" where
  "xl_SUM sf = wrap_func (xsum sf)"

text \<open>
  \<^verbatim>\<open>
  def average(*args):
      l = list(flatten(args))
      return sum(l) / len(l)

  FUNCTIONS['AVERAGE'] = wrap_func(average)
  \<close>
  Division by the length raises \<^verbatim>\<open>ZeroDivisionError\<close> when the list is empty.
\<close>

fun fdiv_pos :: "pyfloat \<Rightarrow> nat \<Rightarrow> pyfloat" where
  "fdiv_pos (Fin s) n = Fin (s / real n)"
| "fdiv_pos x n = x"

definition py_div_len :: "pyfloat \<Rightarrow> nat \<Rightarrow> exn + pyfloat" where
  "py_div_len s n = (if n = 0 then Inl ZeroDivisionError else Inr (fdiv_pos s n))"

definition average :: "str2float \<Rightarrow> xlfun" where
  "average sf args =
     (let l = flatten (Some (is_number sf)) (Arr args) in
      case py_sum l of
        Inl e \<Rightarrow> Inl e
      | Inr s \<Rightarrow>
          (case py_div_len s (length l) of
             Inl e \<Rightarrow> Inl e
           | Inr q \<Rightarrow> Inr (Leaf (Num q))))"

definition xl_AVERAGE :: "str2float \<Rightarrow> xlfun" where
  "xl_AVERAGE sf = wrap_func (average sf)"

text \<open>
  \<^verbatim>\<open>
  def xsumproduct(*args):
      # Check all arrays are the same length
      # Excel returns #VAlUE! error if they don't match
      raise_errors(args)
      assert len(set(arg.size for arg in args)) == 1
      inputs = []
      for a in args:
          a = a.ravel()
          x = np.zeros_like(a, float)
          b = np.vectorize(is_number)(a)
          x[b] = a[b]
          inputs.append(x)

      return np.sum(np.prod(inputs, axis=0))

  FUNCTIONS['SUMPRODUCT'] = wrap_func(xsumproduct)
  \<close>
  A scalar has no \<^verbatim>\<open>size\<close> (\<^verbatim>\<open>AttributeError\<close>). \<^verbatim>\<open>np.vectorize\<close> without \<^verbatim>\<open>otypes\<close>
  finds its output type by a call on the first element and refuses an input of size 0
  (\<^verbatim>\<open>ValueError\<close>: cannot call `vectorize` on size 0 inputs unless `otypes` is set).
  \<^verbatim>\<open>a[b]\<close> selects the leaves where the mask holds; the assignment casts each of them
  to float and writes them, in order, at the positions where the mask holds.
\<close>

definition ravel :: "val \<Rightarrow> cell list" where
  "ravel a = flatten None a"

definition np_size :: "val \<Rightarrow> exn + nat" where
  "np_size arg = (case arg of Arr l \<Rightarrow> Inr (length (ravel arg)) | Leaf c \<Rightarrow> Inl AttributeError)"

definition mask_select :: "'a list \<Rightarrow> bool list \<Rightarrow> 'a list" where
  "mask_select a b = map fst (filter snd (zip a b))"

fun mask_assign :: "'a list \<Rightarrow> bool list \<Rightarrow> 'a list \<Rightarrow> 'a list" where
  "mask_assign (x # xs) (m # ms) vs =
     (if m then (case vs of [] \<Rightarrow> x # mask_assign xs ms [] | v # vs' \<Rightarrow> v # mask_assign xs ms vs')
      else x # mask_assign xs ms vs)"
| "mask_assign xs ms vs = xs"

definition sumproduct_input :: "str2float \<Rightarrow> val \<Rightarrow> exn + pyfloat list" where
  "sumproduct_input sf arg =
     (let a = ravel arg;
          x = replicate (length a) (Fin 0)
      in if a = [] then Inl ValueError
         else let b = map (is_number sf) a
              in case float_all sf (mask_select a b) of
                   Inl e \<Rightarrow> Inl e
                 | Inr vs \<Rightarrow> Inr (mask_assign x b vs))"

definition np_prod_axis0 :: "pyfloat list list \<Rightarrow> pyfloat list" where
  "np_prod_axis0 inputs =
     (case inputs of
        [] \<Rightarrow> []
      | r # rs \<Rightarrow> map (\<lambda>j. foldl fmul (Fin 1) (map (\<lambda>row. row ! j) inputs)) [0..<length r])"

definition np_sum :: "pyfloat list \<Rightarrow> pyfloat" where
  "np_sum xs = foldl fadd (Fin 0) xs"

definition xsumproduct :: "str2float \<Rightarrow> xlfun" where
  "xsumproduct sf args =
     (case raise_errors [Arr args] of
        Inl e \<Rightarrow> Inl e
      | Inr u \<Rightarrow>
          (case collect (map np_size args) of
             Inl e \<Rightarrow> Inl e
           | Inr sizes \<Rightarrow>
               if length (remdups sizes) \<noteq> 1 then Inl AssertionError
               else (case collect (map (sumproduct_input sf) args) of
                       Inl e \<Rightarrow> Inl e
                     | Inr inputs \<Rightarrow> Inr (Leaf (Num (np_sum (np_prod_axis0 inputs)))))))"

definition xl_SUMPRODUCT :: "str2float \<Rightarrow> xlfun" where
  "xl_SUMPRODUCT sf = wrap_func (xsumproduct sf)"

section \<open>Text\<close>

text \<open>
  \<^verbatim>\<open>
  def right(from_str, num_chars):
      out = str(from_str)[(0 - int(num_chars)):]
      return str(out)
  \<close>
  \<^verbatim>\<open>str\<close> is Python's own and a parameter of the model; \<^verbatim>\<open>num_chars\<close> is a number, which
  \<^verbatim>\<open>int\<close> truncates towards zero. A slice \<^verbatim>\<open>s[start:]\<close> with a negative start counts
  from the end, and a start outside the string is clamped to it.
\<close>

fun py_int :: "pyfloat \<Rightarrow> exn + int" where
  "py_int (Fin r) = Inr (if 0 \<le> r then \<lfloor>r\<rfloor> else \<lceil>r\<rceil>)"
| "py_int PInf = Inl OverflowError"
| "py_int NInf = Inl OverflowError"
| "py_int NaN = Inl ValueError"

definition slice_from :: "int \<Rightarrow> 'a list \<Rightarrow> 'a list" where
  "slice_from start s =
     (if start < 0 then drop (nat (int (length s) + start)) s else drop (nat start) s)"

definition right :: "(val \<Rightarrow> string) \<Rightarrow> val \<Rightarrow> pyfloat \<Rightarrow> exn + cell" where
  "right py_str from_str num_chars =
     (case py_int num_chars of
        Inl e \<Rightarrow> Inl e
      | Inr n \<Rightarrow> Inr (Text (slice_from (0 - n) (py_str from_str))))"

section \<open>Instances of the parameters\<close>

text \<open>
  The theorems below hold for every string parser and every power and arctangent
  primitive. The closed examples need instances. \<open>dec_float\<close> parses a non-empty
  string of decimal digits, as \<^verbatim>\<open>float\<close> does, and rejects every other string
  (\<^verbatim>\<open>float\<close> accepts more: signs, fractions, exponents, blanks around the number;
  the examples use none of those). \<open>pow_ideal\<close> and \<open>arctan2_ideal\<close> have the special
  values of the C library's \<^verbatim>\<open>pow\<close> and \<^verbatim>\<open>atan2\<close> and are exact on finite arguments.
\<close>

definition digit_of :: "char \<Rightarrow> nat option" where
  "digit_of c =
     (if c = CHR ''0'' then Some 0 else if c = CHR ''1'' then Some 1
      else if c = CHR ''2'' then Some 2 else if c = CHR ''3'' then Some 3
      else if c = CHR ''4'' then Some 4 else if c = CHR ''5'' then Some 5
      else if c = CHR ''6'' then Some 6 else if c = CHR ''7'' then Some 7
      else if c = CHR ''8'' then Some 8 else if c = CHR ''9'' then Some 9
      else None)"

fun digits_from :: "nat \<Rightarrow> string \<Rightarrow> nat option" where
  "digits_from acc [] = Some acc"
| "digits_from acc (c # cs) =
     (case digit_of c of None \<Rightarrow> None | Some d \<Rightarrow> digits_from (10 * acc + d) cs)"

definition dec_float :: str2float where
  "dec_float s =
     (if s = [] then None
      else case digits_from 0 s of None \<Rightarrow> None | Some n \<Rightarrow> Some (Fin (real n)))"

definition is_int :: "real \<Rightarrow> bool" where
  "is_int y = (y = of_int \<lfloor>y\<rfloor>)"

fun pow_ideal :: "pyfloat \<Rightarrow> pyfloat \<Rightarrow> pyfloat" where
  "pow_ideal x (Fin y) =
     (if y = 0 then Fin 1
      else case x of
        NaN \<Rightarrow> NaN
      | Fin a \<Rightarrow>
          if 0 < a then Fin (a powr y)
          else if a = 0 then (if 0 < y then Fin 0 else PInf)
          else if is_int y then Fin ((if even \<lfloor>y\<rfloor> then 1 else - 1) * (\<bar>a\<bar> powr y))
          else NaN
      | PInf \<Rightarrow> if 0 < y then PInf else Fin 0
      | NInf \<Rightarrow> if 0 < y then (if is_int y \<and> odd \<lfloor>y\<rfloor> then NInf else PInf) else Fin 0)"
| "pow_ideal x PInf =
     (case x of
        NaN \<Rightarrow> NaN
      | Fin a \<Rightarrow> if \<bar>a\<bar> < 1 then Fin 0 else if \<bar>a\<bar> = 1 then Fin 1 else PInf
      | PInf \<Rightarrow> PInf
      | NInf \<Rightarrow> PInf)"
| "pow_ideal x NInf =
     (case x of
        NaN \<Rightarrow> NaN
      | Fin a \<Rightarrow> if \<bar>a\<bar> < 1 then PInf else if \<bar>a\<bar> = 1 then Fin 1 else Fin 0
      | PInf \<Rightarrow> Fin 0
      | NInf \<Rightarrow> Fin 0)"
| "pow_ideal x NaN = (if x = Fin 1 then Fin 1 else NaN)"

definition atan2_real :: "real \<Rightarrow> real \<Rightarrow> real" where
  "atan2_real y x =
     (if 0 < x then arctan (y / x)
      else if x < 0 then (if 0 \<le> y then arctan (y / x) + pi else arctan (y / x) - pi)
      else if 0 < y then pi / 2 else if y < 0 then - (pi / 2) else 0)"

fun arctan2_ideal :: "pyfloat \<Rightarrow> pyfloat \<Rightarrow> pyfloat" where
  "arctan2_ideal NaN x = NaN"
| "arctan2_ideal y NaN = NaN"
| "arctan2_ideal (Fin y) (Fin x) = Fin (atan2_real y x)"
| "arctan2_ideal (Fin y) PInf = Fin 0"
| "arctan2_ideal (Fin y) NInf = Fin (if y < 0 then - pi else pi)"
| "arctan2_ideal PInf (Fin x) = Fin (pi / 2)"
| "arctan2_ideal NInf (Fin x) = Fin (- (pi / 2))"
| "arctan2_ideal PInf PInf = Fin (pi / 4)"
| "arctan2_ideal PInf NInf = Fin (3 * pi / 4)"
| "arctan2_ideal NInf PInf = Fin (- (pi / 4))"
| "arctan2_ideal NInf NInf = Fin (- (3 * pi / 4))"

text \<open>
  \<open>text_str\<close> is \<^verbatim>\<open>str\<close> on a text, the text itself; the examples apply it to nothing else.
\<close>

definition text_str :: "val \<Rightarrow> string" where
  "text_str v = (case v of Leaf (Text s) \<Rightarrow> s | _ \<Rightarrow> [])"

section \<open>Vocabulary of the statements\<close>

text \<open>
  Predicates and values the theorems are stated with: a cell that is a number or a boolean
  (\<open>is_numeric\<close>) and its numeric value (\<open>num_val\<close>); the float of a cell that coerces, zero
  for one that does not (\<open>num_or_zero\<close>); a list of leaves with no error value
  (\<open>no_errors\<close>) or with no text that \<^verbatim>\<open>float\<close> parses (\<open>no_numeric_text\<close>); an argument
  that is an array (\<open>is_array\<close>); the empty substitute on one cell (\<open>fill_empty\<close>); and the
  sum over the positions \<open>j < n\<close> of the product of the arguments' leaves at \<open>j\<close>, with zero
  for a leaf that is not a number (\<open>sumproduct_value\<close>).
\<close>

definition is_numeric :: "cell \<Rightarrow> bool" where
  "is_numeric c = (case c of Num f \<Rightarrow> True | Bool b \<Rightarrow> True | _ \<Rightarrow> False)"

definition num_val :: "cell \<Rightarrow> pyfloat" where
  "num_val c = (case c of Num f \<Rightarrow> f | Bool b \<Rightarrow> Fin (if b then 1 else 0) | _ \<Rightarrow> Fin 0)"

definition num_or_zero :: "str2float \<Rightarrow> cell \<Rightarrow> pyfloat" where
  "num_or_zero sf c = (case py_float sf c of Inl e \<Rightarrow> Fin 0 | Inr f \<Rightarrow> f)"

definition no_errors :: "cell list \<Rightarrow> bool" where
  "no_errors cs = list_all (\<lambda>c. \<not> isinstance_XlError c) cs"

definition no_numeric_text :: "str2float \<Rightarrow> cell list \<Rightarrow> bool" where
  "no_numeric_text sf cs = list_all (\<lambda>c. case c of Text s \<Rightarrow> sf s = None | _ \<Rightarrow> True) cs"

definition is_array :: "val \<Rightarrow> bool" where
  "is_array v = (case v of Arr l \<Rightarrow> True | Leaf c \<Rightarrow> False)"

definition fill_empty :: "cell \<Rightarrow> cell" where
  "fill_empty c = (if c = Empty then Num (Fin 0) else c)"

definition sumproduct_value :: "str2float \<Rightarrow> val list \<Rightarrow> nat \<Rightarrow> pyfloat" where
  "sumproduct_value sf args n =
     foldl fadd (Fin 0)
       (map (\<lambda>j. foldl fmul (Fin 1) (map (\<lambda>a. num_or_zero sf (ravel a ! j)) args)) [0..<n])"

section \<open>Properties\<close>

lemma py_float_exn: "py_float sf c = Inl e \<Longrightarrow> e = ValueError \<or> e = TypeError"
  by (cases c) (auto split: option.splits)

lemma feq_zero: "feq x (Fin 0) = (x = Fin 0)"
  by (cases x) auto

lemma feq_both_zero: "(feq x y \<and> feq y (Fin 0)) = (x = Fin 0 \<and> y = Fin 0)"
  by (cases x; cases y) auto

lemma vectorize_scalar1:
  "vectorize f [Leaf a] = (case f [a] of Inl e \<Rightarrow> Inl e | Inr r \<Rightarrow> Inr (Leaf r))"
  by (simp add: vectorize_def)

lemma vectorize_scalar2:
  "vectorize f [Leaf a, Leaf b] = (case f [a, b] of Inl e \<Rightarrow> Inl e | Inr r \<Rightarrow> Inr (Leaf r))"
  by (simp add: vectorize_def)

lemma float_all_fails:
  "v \<in> set vals \<Longrightarrow> py_float sf v = Inl e \<Longrightarrow>
     float_all sf vals = Inl ValueError \<or> float_all sf vals = Inl TypeError"
  by (induction vals) (auto split: sum.splits dest: py_float_exn)

lemma safe_eval_value:
  "v \<in> set vals \<Longrightarrow> py_float sf v = Inl e \<Longrightarrow> safe_eval sf func vals = Inr (Err ErrValue)"
  using float_all_fails[of v vals sf e] by (auto simp: safe_eval_def except_value_def)

lemma safe_eval_num:
  "float_all sf vals = Inr fs \<Longrightarrow> func fs = Inr (Num r) \<Longrightarrow> isnan r \<or> isinf r \<Longrightarrow>
     safe_eval sf func vals = Inr (Err ErrNum)"
  by (auto simp: safe_eval_def except_value_def)

lemma safe_eval_result_error:
  "float_all sf vals = Inr fs \<Longrightarrow> func fs = Inr (Err e) \<Longrightarrow>
     safe_eval sf func vals = Inr (Err e)"
  by (auto simp: safe_eval_def except_value_def)

lemma safe_eval_finite:
  "float_all sf vals = Inr fs \<Longrightarrow> func fs = Inr (Num r) \<Longrightarrow> \<not> isnan r \<Longrightarrow> \<not> isinf r \<Longrightarrow>
     safe_eval sf func vals = Inr (Num r)"
  by (auto simp: safe_eval_def except_value_def)

lemma wrap_ufunc_scalar1:
  "wrap_ufunc sf func [Leaf a] =
     (case safe_eval sf func [if a = Empty then Num (Fin 0) else a] of
        Inl (FoundError err) \<Rightarrow> Inr (Leaf (Err err))
      | Inl e \<Rightarrow> Inl e
      | Inr r \<Rightarrow> Inr (Leaf r))"
  by (simp add: wrap_ufunc_def wrap_func_def wrapper_def vectorize_scalar1
      split: sum.splits exn.splits)

lemma wrap_ufunc_scalar2:
  "wrap_ufunc sf func [Leaf a, Leaf b] =
     (case safe_eval sf func [if a = Empty then Num (Fin 0) else a,
                              if b = Empty then Num (Fin 0) else b] of
        Inl (FoundError err) \<Rightarrow> Inr (Leaf (Err err))
      | Inl e \<Rightarrow> Inl e
      | Inr r \<Rightarrow> Inr (Leaf r))"
  by (simp add: wrap_ufunc_def wrap_func_def wrapper_def vectorize_scalar2
      split: sum.splits exn.splits)

lemma xl_ABS_array:
  assumes "sf s = None"
  shows "xl_ABS sf [Arr [Arr [Leaf (Num (Fin a)), Leaf (Text s)],
                         Arr [Leaf (Err e), Leaf (Num (Fin b))]]]
    = Inr (Arr [Arr [Leaf (Num (Fin \<bar>a\<bar>)), Leaf (Err ErrValue)],
                Arr [Leaf (Err ErrValue), Leaf (Num (Fin \<bar>b\<bar>))]])"
  using assms
  by (simp add: xl_ABS_def wrap_ufunc_def wrap_func_def wrapper_def vectorize_def bdim_def
      pick_def upt_rec safe_eval_def ufunc1_def except_value_def isnan_def isinf_def)

text \<open>
  C1. For every finite number \<open>r\<close>, \<^verbatim>\<open>ABS(r)\<close> is \<open>\<bar>r\<bar>\<close>. \<^verbatim>\<open>ABS\<close> of an error value is
  \<^verbatim>\<open>#VALUE!\<close>, whichever error value it is: \<^verbatim>\<open>float\<close> of an error value raises, and the
  handler of \<^verbatim>\<open>safe_eval\<close> answers \<^verbatim>\<open>#VALUE!\<close>. The error value that does pass through the
  wrapper untouched is the one the scalar operation itself returns.
\<close>

theorem xl_ABS_scalar:
  "safe_eval sf (ufunc1 (\<lambda>x. Num (np_abs x))) [Num (Fin r)] = Inr (Num (Fin \<bar>r\<bar>))
   \<and> xl_ABS sf [Leaf (Num (Fin r))] = Inr (Leaf (Num (Fin \<bar>r\<bar>)))
   \<and> safe_eval sf (ufunc1 (\<lambda>x. Num (np_abs x))) [Err e] = Inr (Err ErrValue)
   \<and> xl_ABS sf [Leaf (Err e)] = Inr (Leaf (Err ErrValue))
   \<and> (float_all sf vals = Inr fs \<and> func fs = Inr (Err e) \<longrightarrow>
        safe_eval sf func vals = Inr (Err e))"
  by (simp add: xl_ABS_def wrap_ufunc_scalar1 safe_eval_def ufunc1_def except_value_def
      isnan_def isinf_def)

text \<open>\<^verbatim>\<open>ABS(#N/A)\<close> is \<^verbatim>\<open>#VALUE!\<close>, not \<^verbatim>\<open>#N/A\<close>.\<close>

theorem xl_ABS_error_counterexample:
  "safe_eval dec_float (ufunc1 (\<lambda>x. Num (np_abs x))) [Err ErrNA] = Inr (Err ErrValue)
   \<and> xl_ABS dec_float [Leaf (Err ErrNA)] = Inr (Leaf (Err ErrValue))
   \<and> xl_ABS dec_float [Leaf (Err ErrNA)] \<noteq> Inr (Leaf (Err ErrNA))"
  by (simp add: xl_ABS_def wrap_ufunc_scalar1 safe_eval_def ufunc1_def except_value_def)

theorem xl_ABS_scalar_witness:
  "xl_ABS dec_float [Leaf (Num (Fin (- 3)))] = Inr (Leaf (Num (Fin 3)))
   \<and> xl_ABS dec_float [Leaf (Err ErrDiv0)] = Inr (Leaf (Err ErrValue))
   \<and> float_all dec_float [Num (Fin 0), Num (Fin 0)] = Inr [Fin 0, Fin 0]
   \<and> ufunc2 (xarctan2 arctan2_ideal) [Fin 0, Fin 0] = Inr (Err ErrDiv0)
   \<and> safe_eval dec_float (ufunc2 (xarctan2 arctan2_ideal)) [Num (Fin 0), Num (Fin 0)]
       = Inr (Err ErrDiv0)"
  using xl_ABS_scalar[where sf = dec_float and r = "- 3" and e = ErrDiv0
      and vals = "[Num (Fin 0), Num (Fin 0)]" and fs = "[Fin 0, Fin 0]"
      and func = "ufunc2 (xarctan2 arctan2_ideal)"]
  by (simp add: ufunc2_def xarctan2_def)

text \<open>
  C3. At one output position of the elementwise wrapper: when \<^verbatim>\<open>float\<close> fails on one of
  the input leaves the result is \<^verbatim>\<open>#VALUE!\<close> (so a text that does not parse gives
  \<^verbatim>\<open>#VALUE!\<close> through the whole wrapper); when the scalar operation returns a number that
  is NaN or infinite the result is \<^verbatim>\<open>#NUM!\<close>; so \<^verbatim>\<open>LOG\<close> and \<^verbatim>\<open>LN\<close> of a number that is
  not positive are \<^verbatim>\<open>#NUM!\<close>, with no case of their own.
\<close>

theorem safe_eval_value_num:
  "(v \<in> set vals \<and> py_float sf v = Inl e \<longrightarrow> safe_eval sf func vals = Inr (Err ErrValue))
   \<and> (sf s = None \<longrightarrow> wrap_ufunc sf func [Leaf (Text s)] = Inr (Leaf (Err ErrValue)))
   \<and> (float_all sf vals = Inr fs \<and> func fs = Inr (Num r) \<and> (isnan r \<or> isinf r) \<longrightarrow>
        safe_eval sf func vals = Inr (Err ErrNum))
   \<and> (x \<le> 0 \<longrightarrow>
        safe_eval sf (ufunc1 (\<lambda>t. Num (np_log10 t))) [Num (Fin x)] = Inr (Err ErrNum)
        \<and> safe_eval sf (ufunc1 (\<lambda>t. Num (np_log t))) [Num (Fin x)] = Inr (Err ErrNum)
        \<and> xl_LOG sf [Leaf (Num (Fin x))] = Inr (Leaf (Err ErrNum))
        \<and> xl_LN sf [Leaf (Num (Fin x))] = Inr (Leaf (Err ErrNum)))"
proof (intro conjI impI)
  assume "v \<in> set vals \<and> py_float sf v = Inl e"
  then show "safe_eval sf func vals = Inr (Err ErrValue)"
    using safe_eval_value by blast
next
  assume "sf s = None"
  then have "safe_eval sf func [Text s] = Inr (Err ErrValue)"
    using safe_eval_value[of "Text s" "[Text s]" sf ValueError func] by simp
  then show "wrap_ufunc sf func [Leaf (Text s)] = Inr (Leaf (Err ErrValue))"
    by (simp add: wrap_ufunc_scalar1)
next
  assume "float_all sf vals = Inr fs \<and> func fs = Inr (Num r) \<and> (isnan r \<or> isinf r)"
  then show "safe_eval sf func vals = Inr (Err ErrNum)"
    using safe_eval_num by blast
next
  assume x: "x \<le> 0"
  have 10: "isnan (np_log10 (Fin x)) \<or> isinf (np_log10 (Fin x))"
    using x by (simp add: isnan_def isinf_def)
  then show "safe_eval sf (ufunc1 (\<lambda>t. Num (np_log10 t))) [Num (Fin x)] = Inr (Err ErrNum)"
    by (simp add: safe_eval_def ufunc1_def except_value_def)
  from 10 show "xl_LOG sf [Leaf (Num (Fin x))] = Inr (Leaf (Err ErrNum))"
    by (simp add: xl_LOG_def wrap_ufunc_scalar1 safe_eval_def ufunc1_def except_value_def)
  have e: "isnan (np_log (Fin x)) \<or> isinf (np_log (Fin x))"
    using x by (simp add: isnan_def isinf_def)
  then show "safe_eval sf (ufunc1 (\<lambda>t. Num (np_log t))) [Num (Fin x)] = Inr (Err ErrNum)"
    by (simp add: safe_eval_def ufunc1_def except_value_def)
  from e show "xl_LN sf [Leaf (Num (Fin x))] = Inr (Leaf (Err ErrNum))"
    by (simp add: xl_LN_def wrap_ufunc_scalar1 safe_eval_def ufunc1_def except_value_def)
qed

theorem safe_eval_value_num_witness:
  "Text ''abc'' \<in> set [Num (Fin 2), Text ''abc'']
   \<and> py_float dec_float (Text ''abc'') = Inl ValueError
   \<and> safe_eval dec_float (ufunc2 (xpower pow_ideal)) [Num (Fin 2), Text ''abc'']
       = Inr (Err ErrValue)
   \<and> dec_float ''abc'' = None
   \<and> wrap_ufunc dec_float (ufunc2 (xpower pow_ideal)) [Leaf (Text ''abc'')]
       = Inr (Leaf (Err ErrValue))
   \<and> float_all dec_float [Num (Fin (- 1)), Num (Fin (1 / 2))] = Inr [Fin (- 1), Fin (1 / 2)]
   \<and> ufunc2 (xpower pow_ideal) [Fin (- 1), Fin (1 / 2)] = Inr (Num NaN)
   \<and> isnan NaN
   \<and> safe_eval dec_float (ufunc2 (xpower pow_ideal)) [Num (Fin (- 1)), Num (Fin (1 / 2))]
       = Inr (Err ErrNum)
   \<and> (0::real) \<le> 0
   \<and> xl_LOG dec_float [Leaf (Num (Fin 0))] = Inr (Leaf (Err ErrNum))
   \<and> xl_LN dec_float [Leaf (Num (Fin 0))] = Inr (Leaf (Err ErrNum))"
  using safe_eval_value_num[of "Text ''abc''" "[Num (Fin 2), Text ''abc'']" dec_float ValueError
      "ufunc2 (xpower pow_ideal)" "''abc''" "[]" NaN 0]
    safe_eval_value_num[of "Text ''abc''" "[Num (Fin (- 1)), Num (Fin (1 / 2))]" dec_float
      ValueError "ufunc2 (xpower pow_ideal)" "''abc''" "[Fin (- 1), Fin (1 / 2)]" NaN 0]
  by (simp add: ufunc2_def xpower_def is_int_def dec_float_def digit_of_def isnan_def)

lemma xpower_cases:
  "xpower pw (Fin 0) (Fin 0) = Err ErrNum"
  "flt p (Fin 0) \<Longrightarrow> xpower pw (Fin 0) p = Err ErrDiv0"
  "\<not> (x = Fin 0 \<and> (p = Fin 0 \<or> flt p (Fin 0))) \<Longrightarrow> xpower pw x p = Num (pw x p)"
  by (auto simp: xpower_def feq_zero)

lemma xl_POWER_scalar:
  "xl_POWER sf pw [Leaf (Num x), Leaf (Num p)] =
     Inr (Leaf (case xpower pw x p of
                  Num r \<Rightarrow> if isnan r \<or> isinf r then Err ErrNum else Num r
                | c \<Rightarrow> c))"
  by (simp add: xl_POWER_def wrap_ufunc_scalar2 safe_eval_def ufunc2_def except_value_def
      xpower_def)

text \<open>
  C6. \<^verbatim>\<open>POWER(0, 0)\<close> is \<^verbatim>\<open>#NUM!\<close> and \<^verbatim>\<open>POWER(0, p)\<close> is \<^verbatim>\<open>#DIV/0!\<close> for every negative
  \<open>p\<close>, whatever the power primitive would return there. For every other base and
  exponent \<^verbatim>\<open>xpower\<close> returns what the primitive returns, and \<^verbatim>\<open>POWER\<close> returns that
  number when it is finite and \<^verbatim>\<open>#NUM!\<close> when it is NaN or infinite. With a primitive
  that has \<open>2 ^ 10 = 1024\<close>, \<^verbatim>\<open>POWER(2, 10)\<close> is 1024.
\<close>

theorem xl_POWER_domain:
  "xpower pw (Fin 0) (Fin 0) = Err ErrNum
   \<and> xl_POWER sf pw [Leaf (Num (Fin 0)), Leaf (Num (Fin 0))] = Inr (Leaf (Err ErrNum))
   \<and> (flt p (Fin 0) \<longrightarrow>
        xpower pw (Fin 0) p = Err ErrDiv0
        \<and> xl_POWER sf pw [Leaf (Num (Fin 0)), Leaf (Num p)] = Inr (Leaf (Err ErrDiv0)))
   \<and> (\<not> (x = Fin 0 \<and> (p = Fin 0 \<or> flt p (Fin 0))) \<longrightarrow>
        xpower pw x p = Num (pw x p)
        \<and> xl_POWER sf pw [Leaf (Num x), Leaf (Num p)] =
            Inr (Leaf (if isnan (pw x p) \<or> isinf (pw x p) then Err ErrNum else Num (pw x p))))
   \<and> (pw (Fin 2) (Fin 10) = Fin 1024 \<longrightarrow>
        xl_POWER sf pw [Leaf (Num (Fin 2)), Leaf (Num (Fin 10))] = Inr (Leaf (Num (Fin 1024))))"
proof (intro conjI impI)
  show "xpower pw (Fin 0) (Fin 0) = Err ErrNum"
    by (rule xpower_cases)
next
  show "xl_POWER sf pw [Leaf (Num (Fin 0)), Leaf (Num (Fin 0))] = Inr (Leaf (Err ErrNum))"
    by (simp add: xl_POWER_scalar xpower_cases)
next
  assume "flt p (Fin 0)"
  then show "xpower pw (Fin 0) p = Err ErrDiv0"
    by (rule xpower_cases)
next
  assume "flt p (Fin 0)"
  then show "xl_POWER sf pw [Leaf (Num (Fin 0)), Leaf (Num p)] = Inr (Leaf (Err ErrDiv0))"
    by (simp add: xl_POWER_scalar xpower_cases)
next
  assume h: "\<not> (x = Fin 0 \<and> (p = Fin 0 \<or> flt p (Fin 0)))"
  then show a: "xpower pw x p = Num (pw x p)"
    by (rule xpower_cases)
  show "xl_POWER sf pw [Leaf (Num x), Leaf (Num p)] =
      Inr (Leaf (if isnan (pw x p) \<or> isinf (pw x p) then Err ErrNum else Num (pw x p)))"
    by (simp add: xl_POWER_scalar a)
next
  assume h: "pw (Fin 2) (Fin 10) = Fin 1024"
  have "xpower pw (Fin 2) (Fin 10) = Num (Fin 1024)"
    using xpower_cases(3)[where x = "Fin 2" and p = "Fin 10" and pw = pw] h by simp
  then show "xl_POWER sf pw [Leaf (Num (Fin 2)), Leaf (Num (Fin 10))] = Inr (Leaf (Num (Fin 1024)))"
    by (simp add: xl_POWER_scalar isnan_def isinf_def)
qed

theorem xl_POWER_domain_witness:
  "flt (Fin (- 1)) (Fin 0)
   \<and> xpower pow_ideal (Fin 0) (Fin (- 1)) = Err ErrDiv0
   \<and> xl_POWER dec_float pow_ideal [Leaf (Num (Fin 0)), Leaf (Num (Fin (- 1)))]
       = Inr (Leaf (Err ErrDiv0))
   \<and> \<not> (Fin 3 = Fin 0 \<and> (Fin 2 = Fin 0 \<or> flt (Fin 2) (Fin 0)))
   \<and> xpower pow_ideal (Fin 3) (Fin 2) = Num (Fin 9)
   \<and> xl_POWER dec_float pow_ideal [Leaf (Num (Fin 3)), Leaf (Num (Fin 2))]
       = Inr (Leaf (Num (Fin 9)))
   \<and> pow_ideal (Fin 2) (Fin 10) = Fin 1024
   \<and> xl_POWER dec_float pow_ideal [Leaf (Num (Fin 2)), Leaf (Num (Fin 10))]
       = Inr (Leaf (Num (Fin 1024)))"
  using xl_POWER_domain[where sf = dec_float and pw = pow_ideal and p = "Fin (- 1)"]
    xl_POWER_domain[where sf = dec_float and pw = pow_ideal and x = "Fin 3" and p = "Fin 2"]
  by (simp add: isnan_def isinf_def)

text \<open>
  \<^verbatim>\<open>POWER(-1, 0.5)\<close>: the primitive returns NaN, \<^verbatim>\<open>POWER\<close> returns \<^verbatim>\<open>#NUM!\<close>.
\<close>

theorem xl_POWER_nan_counterexample:
  "pow_ideal (Fin (- 1)) (Fin (1 / 2)) = NaN
   \<and> safe_eval dec_float (ufunc2 (xpower pow_ideal)) [Num (Fin (- 1)), Num (Fin (1 / 2))]
     = Inr (Err ErrNum)
   \<and> xl_POWER dec_float pow_ideal [Leaf (Num (Fin (- 1))), Leaf (Num (Fin (1 / 2)))]
     = Inr (Leaf (Err ErrNum))
   \<and> xl_POWER dec_float pow_ideal [Leaf (Num (Fin (- 1))), Leaf (Num (Fin (1 / 2)))]
     \<noteq> Inr (Leaf (Num (pow_ideal (Fin (- 1)) (Fin (1 / 2)))))"
  by (simp add: xl_POWER_scalar xpower_def is_int_def isnan_def safe_eval_def ufunc2_def
      except_value_def)

lemma xarctan2_cases:
  "xarctan2 atn (Fin 0) (Fin 0) = Err ErrDiv0"
  "\<not> (x = Fin 0 \<and> y = Fin 0) \<Longrightarrow> xarctan2 atn x y = Num (atn y x)"
  by (simp_all add: xarctan2_def feq_both_zero)

lemma xl_ATAN2_scalar:
  "xl_ATAN2 sf atn [Leaf (Num x), Leaf (Num y)] =
     Inr (Leaf (case xarctan2 atn x y of
                  Num r \<Rightarrow> if isnan r \<or> isinf r then Err ErrNum else Num r
                | c \<Rightarrow> c))"
  by (simp add: xl_ATAN2_def wrap_ufunc_scalar2 safe_eval_def ufunc2_def except_value_def
      xarctan2_def)

lemma arctan2_ideal_finite:
  "\<not> isnan y \<Longrightarrow> \<not> isnan x \<Longrightarrow> \<not> isnan (arctan2_ideal y x) \<and> \<not> isinf (arctan2_ideal y x)"
  by (cases y; cases x) (simp_all add: isnan_def isinf_def)

text \<open>
  C7. \<^verbatim>\<open>ATAN2(0, 0)\<close> is \<^verbatim>\<open>#DIV/0!\<close>, whatever the arctangent primitive returns there. For
  any other arguments \<^verbatim>\<open>xarctan2(x, y)\<close> is the primitive at \<open>(y, x)\<close>, and \<^verbatim>\<open>ATAN2\<close> returns
  it whenever it is a finite number, which \<^verbatim>\<open>atan2\<close> is at all arguments but NaN;
  \<^verbatim>\<open>ATAN2(0, 1)\<close> is \<^verbatim>\<open>atan2(1, 0)\<close>.
\<close>

theorem xl_ATAN2_domain:
  "xarctan2 atn (Fin 0) (Fin 0) = Err ErrDiv0
   \<and> xl_ATAN2 sf atn [Leaf (Num (Fin 0)), Leaf (Num (Fin 0))] = Inr (Leaf (Err ErrDiv0))
   \<and> (\<not> (x = Fin 0 \<and> y = Fin 0) \<longrightarrow> xarctan2 atn x y = Num (atn y x))
   \<and> (\<not> (x = Fin 0 \<and> y = Fin 0) \<and> \<not> isnan (atn y x) \<and> \<not> isinf (atn y x) \<longrightarrow>
        xl_ATAN2 sf atn [Leaf (Num x), Leaf (Num y)] = Inr (Leaf (Num (atn y x))))
   \<and> (\<not> (x = Fin 0 \<and> y = Fin 0) \<and> \<not> isnan x \<and> \<not> isnan y \<longrightarrow>
        xl_ATAN2 sf arctan2_ideal [Leaf (Num x), Leaf (Num y)]
          = Inr (Leaf (Num (arctan2_ideal y x))))
   \<and> xl_ATAN2 sf arctan2_ideal [Leaf (Num (Fin 0)), Leaf (Num (Fin 1))]
       = Inr (Leaf (Num (arctan2_ideal (Fin 1) (Fin 0))))"
proof -
  have fin: "\<not> (x = Fin 0 \<and> y = Fin 0) \<and> \<not> isnan (f y x) \<and> \<not> isinf (f y x) \<longrightarrow>
        xl_ATAN2 sf f [Leaf (Num x), Leaf (Num y)] = Inr (Leaf (Num (f y x)))" for f x y
    by (simp add: xl_ATAN2_scalar xarctan2_cases)
  have ideal: "\<not> (x = Fin 0 \<and> y = Fin 0) \<and> \<not> isnan x \<and> \<not> isnan y \<longrightarrow>
        xl_ATAN2 sf arctan2_ideal [Leaf (Num x), Leaf (Num y)]
          = Inr (Leaf (Num (arctan2_ideal y x)))" for x y
    using fin[of x y arctan2_ideal] arctan2_ideal_finite[of y x] by blast
  have ex: "xl_ATAN2 sf arctan2_ideal [Leaf (Num (Fin 0)), Leaf (Num (Fin 1))]
       = Inr (Leaf (Num (arctan2_ideal (Fin 1) (Fin 0))))"
    using ideal[of "Fin 0" "Fin 1"] by (simp add: isnan_def)
  show ?thesis
    using fin[of x y atn] ideal[of x y] ex
    by (simp add: xl_ATAN2_scalar xarctan2_cases)
qed

theorem xl_ATAN2_domain_witness:
  "\<not> (Fin 0 = Fin 0 \<and> Fin 1 = Fin 0)
   \<and> xarctan2 arctan2_ideal (Fin 0) (Fin 1) = Num (Fin (pi / 2))
   \<and> \<not> isnan (arctan2_ideal (Fin 1) (Fin 0)) \<and> \<not> isinf (arctan2_ideal (Fin 1) (Fin 0))
   \<and> \<not> isnan (Fin 0) \<and> \<not> isnan (Fin 1)
   \<and> xl_ATAN2 dec_float arctan2_ideal [Leaf (Num (Fin 0)), Leaf (Num (Fin 1))]
       = Inr (Leaf (Num (Fin (pi / 2))))"
  using xl_ATAN2_domain[where sf = dec_float and atn = arctan2_ideal and x = "Fin 0"
      and y = "Fin 1"]
  by (simp add: isnan_def isinf_def atan2_real_def)

text \<open>
  C10. For every value \<open>s\<close> and every integer \<open>n \<le> 0\<close>, \<^verbatim>\<open>RIGHT(s, n)\<close> is \<^verbatim>\<open>str(s)\<close> without
  its first \<open>- n\<close> characters; \<^verbatim>\<open>RIGHT(s, 0)\<close> is the whole string.
\<close>

theorem right_nonpositive:
  "(n \<le> 0 \<longrightarrow>
      right py_str s (Fin (of_int n)) = Inr (Text (drop (nat (- n)) (py_str s))))
   \<and> right py_str s (Fin 0) = Inr (Text (py_str s))"
  by (auto simp: right_def slice_from_def)

theorem right_nonpositive_witness:
  "(- 2 :: int) \<le> 0
   \<and> right text_str (Leaf (Text ''hello'')) (Fin (- 2)) = Inr (Text ''llo'')
   \<and> right text_str (Leaf (Text ''hello'')) (Fin 0) = Inr (Text ''hello'')"
  using right_nonpositive[where n = "- 2" and py_str = text_str
      and s = "Leaf (Text ''hello'')"]
  by (simp add: text_str_def)

lemma flatten_filter: "flatten (Some p) v = filter p (flatten None v)"
  by (induction v) (auto simp: filter_concat map_idI intro: arg_cong[where f = concat])

lemma flatten_args_tuple: "flatten check (Arr [Arr args]) = flatten check (Arr args)"
  by simp

lemma raise_errors_loop_ok: "no_errors cs \<Longrightarrow> raise_errors_loop cs = Inr ()"
  by (induction cs) (auto simp: no_errors_def isinstance_XlError_def split: cell.splits)

lemma raise_errors_loop_first:
  "no_errors pre \<Longrightarrow> raise_errors_loop (pre @ Err e # post) = Inl (FoundError e)"
  by (induction pre) (auto simp: no_errors_def isinstance_XlError_def split: cell.splits)

lemma py_sum_from_numeric:
  "list_all is_numeric l \<Longrightarrow> py_sum_from acc l = Inr (foldl fadd acc (map num_val l))"
  by (induction l arbitrary: acc) (auto simp: is_numeric_def num_val_def split: cell.splits)

lemma filter_is_number_numeric:
  "no_numeric_text sf cs \<Longrightarrow> filter (is_number sf) cs = filter is_numeric cs"
  by (induction cs)
    (auto simp: no_numeric_text_def is_number_def isinstance_Error_def
      is_numeric_def split: cell.splits option.splits)

lemma list_all_filter_self: "list_all p (filter p xs)"
  by (induction xs) auto

lemma xsum_numbers:
  assumes "no_errors (flatten None (Arr args))"
    and "no_numeric_text sf (flatten None (Arr args))"
  shows "xsum sf args =
    Inr (Leaf (Num (foldl fadd (Fin 0)
      (map num_val (filter is_numeric (flatten None (Arr args)))))))"
proof -
  have 1: "raise_errors [Arr args] = Inr ()"
    using assms(1) unfolding raise_errors_def flatten_args_tuple by (rule raise_errors_loop_ok)
  have 2: "flatten (Some (is_number sf)) (Arr args) = filter is_numeric (flatten None (Arr args))"
    using assms by (simp only: flatten_filter filter_is_number_numeric)
  show ?thesis
    unfolding xsum_def 1 2 py_sum_def
    by (simp add: py_sum_from_numeric list_all_filter_self)
qed

lemma xsum_found_error:
  assumes "flatten None (Arr args) = pre @ Err e # post" and "no_errors pre"
  shows "xsum sf args = Inl (FoundError e)"
  using assms
  by (simp only: xsum_def raise_errors_def flatten_args_tuple raise_errors_loop_first) simp

lemma flatten_replace_empty: "flatten None (replace_empty v) = map fill_empty (flatten None v)"
  by (induction v) (auto simp: fill_empty_def map_concat intro: arg_cong[where f = concat])

lemma flatten_map_replace_empty:
  "flatten None (Arr (map replace_empty args)) = map fill_empty (flatten None (Arr args))"
  using flatten_replace_empty[of "Arr args"] by simp

lemma no_errors_fill_empty: "no_errors (map fill_empty cs) = no_errors cs"
  by (induction cs) (auto simp: no_errors_def fill_empty_def isinstance_XlError_def)

lemma xl_SUM_found_error:
  assumes "flatten None (Arr args) = pre @ Err e # post" and "no_errors pre"
  shows "xl_SUM sf args = Inr (Leaf (Err e))"
proof -
  have "flatten None (Arr (map replace_empty args))
      = map fill_empty pre @ Err e # map fill_empty post"
    by (simp only: flatten_map_replace_empty assms(1)) (simp add: fill_empty_def)
  moreover have "no_errors (map fill_empty pre)"
    using assms(2) by (simp only: no_errors_fill_empty)
  ultimately have "xsum sf (map replace_empty args) = Inl (FoundError e)"
    by (rule xsum_found_error)
  then show ?thesis
    by (simp add: xl_SUM_def wrap_func_def)
qed

text \<open>
  C2. \<^verbatim>\<open>SUM\<close> of two 1 x 1 arrays with no error value, one holding the text \<^verbatim>\<open>'3'\<close> and the
  other the number 1: \<^verbatim>\<open>is_number\<close> accepts the text, and \<^verbatim>\<open>sum\<close> raises \<^verbatim>\<open>TypeError\<close> on
  it. (On arguments without such a text \<open>xsum_numbers\<close> gives the sum, and
  \<open>xl_SUM_found_error\<close> the first error value of arguments that hold one.)
\<close>

theorem xsum_numeric_text:
  "no_errors (flatten None (Arr [Arr [Arr [Leaf (Text ''3'')]], Arr [Arr [Leaf (Num (Fin 1))]]]))
   \<and> py_float dec_float (Text ''3'') = Inr (Fin 3)
   \<and> is_number dec_float (Text ''3'')
   \<and> flatten (Some (is_number dec_float))
         (Arr [Arr [Arr [Leaf (Text ''3'')]], Arr [Arr [Leaf (Num (Fin 1))]]])
       = [Text ''3'', Num (Fin 1)]
   \<and> xsum dec_float [Arr [Arr [Leaf (Text ''3'')]], Arr [Arr [Leaf (Num (Fin 1))]]]
       = Inl TypeError"
  by (simp add: xsum_def raise_errors_def py_sum_def is_number_def isinstance_Error_def
      dec_float_def digit_of_def no_errors_def isinstance_XlError_def)

lemma average_numbers:
  assumes "no_numeric_text sf (flatten None (Arr args))"
    and "filter is_numeric (flatten None (Arr args)) \<noteq> []"
  shows "average sf args =
    Inr (Leaf (Num (fdiv_pos
      (foldl fadd (Fin 0) (map num_val (filter is_numeric (flatten None (Arr args)))))
      (length (filter is_numeric (flatten None (Arr args)))))))"
proof -
  have 2: "flatten (Some (is_number sf)) (Arr args) = filter is_numeric (flatten None (Arr args))"
    using assms(1) by (simp only: flatten_filter filter_is_number_numeric)
  show ?thesis
    unfolding average_def 2 py_sum_def Let_def
    using assms(2) by (simp add: py_sum_from_numeric list_all_filter_self py_div_len_def)
qed

lemma average_never_found_error: "average sf args \<noteq> Inl (FoundError e)"
proof -
  have "py_sum_from acc l \<noteq> Inl (FoundError e)" for acc l
    by (induction l arbitrary: acc) (auto split: sum.splits cell.splits elim: py_add.elims)
  then show ?thesis
    by (auto simp: average_def Let_def py_sum_def py_div_len_def split: sum.splits)
qed

text \<open>
  C9. \<^verbatim>\<open>AVERAGE\<close> of an array with no error value that holds the text \<^verbatim>\<open>'3'\<close> and the number
  1: both leaves are accepted by \<^verbatim>\<open>is_number\<close>, and \<^verbatim>\<open>sum\<close> raises \<^verbatim>\<open>TypeError\<close> on the
  text. (On arguments without such a text \<open>average_numbers\<close> gives the sum of the accepted
  leaves divided by their count, and \<open>average_never_found_error\<close> says that no fail-fast
  check runs.)
\<close>

theorem average_numeric_text:
  "no_errors (flatten None (Arr [Arr [Leaf (Text ''3''), Leaf (Num (Fin 1))]]))
   \<and> flatten (Some (is_number dec_float)) (Arr [Arr [Leaf (Text ''3''), Leaf (Num (Fin 1))]])
       = [Text ''3'', Num (Fin 1)]
   \<and> average dec_float [Arr [Leaf (Text ''3''), Leaf (Num (Fin 1))]] = Inl TypeError"
  by (simp add: average_def py_sum_def is_number_def isinstance_Error_def
      dec_float_def digit_of_def no_errors_def isinstance_XlError_def)

lemma collect_map_Inr: "(\<And>x. x \<in> set xs \<Longrightarrow> f x = Inr (g x)) \<Longrightarrow> collect (map f xs) = Inr (map g xs)"
  by (induction xs) auto

lemma np_size_array: "is_array a \<Longrightarrow> np_size a = Inr (length (ravel a))"
  by (cases a) (auto simp: is_array_def np_size_def)

lemma remdups_one: "(length (remdups xs) = 1) = (\<exists>n. set xs = {n})"
  by (simp add: length_remdups_card_conv card_1_singleton_iff) 

lemma mask_select_map: "mask_select cs (map p cs) = filter p cs"
  by (induction cs) (auto simp: mask_select_def)

lemma mask_assign_map:
  "mask_assign (replicate (length cs) z) (map p cs) (map g (filter p cs))
     = map (\<lambda>c. if p c then g c else z) cs"
  by (induction cs) auto

lemma float_all_is_number:
  "float_all sf (filter (is_number sf) cs) = Inr (map (num_or_zero sf) (filter (is_number sf) cs))"
  by (induction cs)
    (auto simp: is_number_def isinstance_Error_def num_or_zero_def split: sum.splits)

lemma num_or_zero_not_number: "\<not> is_number sf c \<Longrightarrow> num_or_zero sf c = Fin 0"
  by (auto simp: is_number_def isinstance_Error_def num_or_zero_def split: sum.splits)

lemma sumproduct_input_eq:
  "ravel a \<noteq> [] \<Longrightarrow> sumproduct_input sf a = Inr (map (num_or_zero sf) (ravel a))"
  by (simp add: sumproduct_input_def Let_def mask_select_map float_all_is_number
      mask_assign_map num_or_zero_not_number cong: map_cong)

lemma np_prod_axis0_columns:
  assumes "args \<noteq> []" and "\<And>a. a \<in> set args \<Longrightarrow> length (ravel a) = n"
  shows "np_prod_axis0 (map (\<lambda>a. map g (ravel a)) args)
    = map (\<lambda>j. foldl fmul (Fin 1) (map (\<lambda>a. g (ravel a ! j)) args)) [0..<n]"
proof -
  obtain a0 rest where args: "args = a0 # rest"
    using assms(1) by (cases args) auto
  have n: "length (ravel a0) = n"
    using assms(2) args by simp
  have "map (\<lambda>row. row ! j) (map (\<lambda>a. map g (ravel a)) args) = map (\<lambda>a. g (ravel a ! j)) args"
    if "j < n" for j
    using that assms(2) by (simp add: comp_def)
  then show ?thesis
    by (simp add: np_prod_axis0_def args n del: map_map cong: map_cong)
qed

lemma xsumproduct_found_error:
  assumes "flatten None (Arr args) = pre @ Err e # post" and "no_errors pre"
  shows "xsumproduct sf args = Inl (FoundError e)"
  using assms
  by (simp only: xsumproduct_def raise_errors_def flatten_args_tuple raise_errors_loop_first) simp

lemma xsumproduct_sizes:
  assumes "no_errors (flatten None (Arr args))" and "list_all is_array args"
  shows "xsumproduct sf args =
    (if length (remdups (map (\<lambda>a. length (ravel a)) args)) \<noteq> 1 then Inl AssertionError
     else case collect (map (sumproduct_input sf) args) of
            Inl e \<Rightarrow> Inl e
          | Inr inputs \<Rightarrow> Inr (Leaf (Num (np_sum (np_prod_axis0 inputs)))))"
proof -
  have 1: "raise_errors [Arr args] = Inr ()"
    using assms(1) unfolding raise_errors_def flatten_args_tuple by (rule raise_errors_loop_ok)
  have 2: "collect (map np_size args) = Inr (map (\<lambda>a. length (ravel a)) args)"
    using assms(2) by (intro collect_map_Inr np_size_array) (simp add: list_all_iff)
  show ?thesis
    unfolding xsumproduct_def 1 2 by simp
qed

lemma xsumproduct_mismatch:
  assumes "no_errors (flatten None (Arr args))" and "list_all is_array args"
    and "a \<in> set args" and "b \<in> set args" and "length (ravel a) \<noteq> length (ravel b)"
  shows "xsumproduct sf args = Inl AssertionError"
proof -
  have "\<not> (\<exists>n. set (map (\<lambda>a. length (ravel a)) args) = {n})"
    using assms(3-5) by (auto simp: set_eq_iff image_iff) metis
  then show ?thesis
    using xsumproduct_sizes[OF assms(1,2)] by (simp only: remdups_one) simp
qed

lemma xsumproduct_match:
  assumes "no_errors (flatten None (Arr args))" and "list_all is_array args"
    and "args \<noteq> []" and "list_all (\<lambda>a. length (ravel a) = n) args" and "0 < n"
  shows "xsumproduct sf args = Inr (Leaf (Num (sumproduct_value sf args n)))"
proof -
  have len: "length (ravel a) = n" if "a \<in> set args" for a
    using that assms(4) by (simp add: list_all_iff)
  have "set (map (\<lambda>a. length (ravel a)) args) = {n}"
    using assms(3) len by (cases args) auto
  then have 1: "length (remdups (map (\<lambda>a. length (ravel a)) args)) = 1"
    by (simp only: remdups_one) blast
  have 2: "collect (map (sumproduct_input sf) args)
      = Inr (map (\<lambda>a. map (num_or_zero sf) (ravel a)) args)"
  proof (rule collect_map_Inr)
    fix a assume "a \<in> set args"
    then have "ravel a \<noteq> []" using len assms(5) by fastforce
    then show "sumproduct_input sf a = Inr (map (num_or_zero sf) (ravel a))"
      by (rule sumproduct_input_eq)
  qed
  show ?thesis
    using xsumproduct_sizes[OF assms(1,2), of sf]
    by (simp add: 1 2 np_prod_axis0_columns[OF assms(3) len] np_sum_def sumproduct_value_def)
qed

text \<open>
  C5. An error value anywhere in the arguments is raised first, whatever the element
  counts are. With no error value and array arguments, \<^verbatim>\<open>SUMPRODUCT\<close> fails on its
  assertion when two arguments differ in element count; when every argument has the same
  count \<open>n > 0\<close> the result is the sum over the positions of the product of the
  arguments' leaves there, a leaf that is not a number counting as zero.
\<close>

theorem xsumproduct_counts:
  "(flatten None (Arr args) = pre @ Err e # post \<and> no_errors pre \<longrightarrow>
      xsumproduct sf args = Inl (FoundError e))
   \<and> (no_errors (flatten None (Arr args)) \<and> list_all is_array args
       \<and> a \<in> set args \<and> b \<in> set args \<and> length (ravel a) \<noteq> length (ravel b) \<longrightarrow>
      xsumproduct sf args = Inl AssertionError)
   \<and> (no_errors (flatten None (Arr args)) \<and> list_all is_array args
       \<and> args \<noteq> [] \<and> list_all (\<lambda>a. length (ravel a) = n) args \<and> 0 < n \<longrightarrow>
      xsumproduct sf args = Inr (Leaf (Num (sumproduct_value sf args n))))"
  using xsumproduct_found_error xsumproduct_mismatch xsumproduct_match by blast

text \<open>
  Counts 1 and 2 that differ, with \<^verbatim>\<open>#N/A\<close> in the first argument: the result is the
  \<^verbatim>\<open>FoundError\<close> of \<^verbatim>\<open>#N/A\<close>, not the assertion failure. Two arrays of equal count 0:
  \<^verbatim>\<open>np.vectorize(is_number)\<close> raises \<^verbatim>\<open>ValueError\<close>.
\<close>

theorem xsumproduct_counterexample:
  "xsumproduct dec_float [Arr [Leaf (Err ErrNA)], Arr [Leaf (Num (Fin 1)), Leaf (Num (Fin 2))]]
     = Inl (FoundError ErrNA)
   \<and> length (ravel (Arr [Leaf (Err ErrNA)]))
       \<noteq> length (ravel (Arr [Leaf (Num (Fin 1)), Leaf (Num (Fin 2))]))
   \<and> xsumproduct dec_float [Arr [], Arr []] = Inl ValueError
   \<and> length (ravel (Arr [])) = length (ravel (Arr []))"
  by (simp add: xsumproduct_def raise_errors_def ravel_def np_size_def sumproduct_input_def)

theorem xsumproduct_counts_witness:
  "flatten None (Arr [Arr [Leaf (Num (Fin 5)), Leaf (Err ErrNA)], Arr [Leaf (Num (Fin 1))]])
     = [Num (Fin 5)] @ Err ErrNA # [Num (Fin 1)]
   \<and> no_errors [Num (Fin 5)]
   \<and> xsumproduct dec_float [Arr [Leaf (Num (Fin 5)), Leaf (Err ErrNA)], Arr [Leaf (Num (Fin 1))]]
       = Inl (FoundError ErrNA)
   \<and> no_errors (flatten None (Arr [Arr [Leaf (Num (Fin 1))],
                                     Arr [Leaf (Num (Fin 2)), Leaf (Num (Fin 3))]]))
   \<and> list_all is_array [Arr [Leaf (Num (Fin 1))], Arr [Leaf (Num (Fin 2)), Leaf (Num (Fin 3))]]
   \<and> length (ravel (Arr [Leaf (Num (Fin 1))]))
       \<noteq> length (ravel (Arr [Leaf (Num (Fin 2)), Leaf (Num (Fin 3))]))
   \<and> xsumproduct dec_float [Arr [Leaf (Num (Fin 1))], Arr [Leaf (Num (Fin 2)), Leaf (Num (Fin 3))]]
       = Inl AssertionError
   \<and> no_errors (flatten None (Arr [Arr [Leaf (Num (Fin 4)), Leaf (Text ''a'')],
                                     Arr [Leaf (Num (Fin 2)), Leaf (Num (Fin 3))]]))
   \<and> list_all (\<lambda>a. length (ravel a) = 2)
        [Arr [Leaf (Num (Fin 4)), Leaf (Text ''a'')], Arr [Leaf (Num (Fin 2)), Leaf (Num (Fin 3))]]
   \<and> xsumproduct dec_float
        [Arr [Leaf (Num (Fin 4)), Leaf (Text ''a'')], Arr [Leaf (Num (Fin 2)), Leaf (Num (Fin 3))]]
       = Inr (Leaf (Num (Fin 8)))"
  using
    xsumproduct_counts[where args = "[Arr [Leaf (Num (Fin 5)), Leaf (Err ErrNA)], Arr [Leaf (Num (Fin 1))]]"
      and pre = "[Num (Fin 5)]" and e = ErrNA and post = "[Num (Fin 1)]" and sf = dec_float]
    xsumproduct_counts[where
      args = "[Arr [Leaf (Num (Fin 1))], Arr [Leaf (Num (Fin 2)), Leaf (Num (Fin 3))]]"
      and a = "Arr [Leaf (Num (Fin 1))]" and b = "Arr [Leaf (Num (Fin 2)), Leaf (Num (Fin 3))]"
      and sf = dec_float]
    xsumproduct_counts[where
      args = "[Arr [Leaf (Num (Fin 4)), Leaf (Text ''a'')], Arr [Leaf (Num (Fin 2)), Leaf (Num (Fin 3))]]"
      and n = 2 and sf = dec_float]
  by (simp add: no_errors_def isinstance_XlError_def is_array_def ravel_def
      sumproduct_value_def num_or_zero_def dec_float_def digit_of_def upt_rec)

text \<open>
  C4. \<open>is_number\<close> is true exactly on the cells that \<^verbatim>\<open>float\<close> coerces; it is false on
  every error value and on every text that \<^verbatim>\<open>float\<close> does not parse.
\<close>

theorem is_number_coerces:
  "is_number sf c = (\<exists>f. py_float sf c = Inr f)
   \<and> is_number sf (Num x) \<and> is_number sf (Bool b)
   \<and> is_number sf (Text s) = (sf s \<noteq> None)
   \<and> is_number sf (Err e) = False
   \<and> is_number sf Empty = False"
  by (auto simp: is_number_def isinstance_Error_def split: sum.splits option.splits)

text \<open>
  C8. \<^verbatim>\<open>ISERROR\<close> of \<^verbatim>\<open>#N/A\<close> is true and \<^verbatim>\<open>ISERR\<close> of \<^verbatim>\<open>#N/A\<close> is false; \<^verbatim>\<open>ISERR\<close> is true
  on every other error value, \<^verbatim>\<open>ISERROR\<close> on every error value, and both are false on
  a number.
\<close>

theorem iserr_iserror_scalar:
  "iserror (Leaf (Err ErrNA)) = Inr (Leaf (Bool True))
   \<and> iserr (Leaf (Err ErrNA)) = Inr (Leaf (Bool False))
   \<and> iserr (Leaf (Err e)) = Inr (Leaf (Bool (e \<noteq> ErrNA)))
   \<and> iserror (Leaf (Err e)) = Inr (Leaf (Bool True))
   \<and> iserr (Leaf (Num x)) = Inr (Leaf (Bool False))
   \<and> iserror (Leaf (Num x)) = Inr (Leaf (Bool False))"
  by (simp add: iserr_def iserror_def iserr_array_def iserror_array_def index00_def
      isinstance_XlError_def)

end
